theory Spec2Isabelle
  imports Main "HOL-Library.Word"
begin

unbundle bit_operations_syntax

section \<open>Z-Wave whole house ventilation fan speed controller\<close>

text \<open>
  A shallow embedding of \<^verbatim>\<open>houseVentFanCtrl.ino\<close>. The sketch runs on a Z-Uno
  board; \<^verbatim>\<open>uint8_t\<close>, \<^verbatim>\<open>uint16_t\<close> and \<^verbatim>\<open>uint32_t\<close> are words of
  that width, \<^verbatim>\<open>int16_t\<close> is a 16-bit word read in two's complement.
\<close>

type_synonym u8 = "8 word"
type_synonym u16 = "16 word"
type_synonym u32 = "32 word"
type_synonym i16 = "16 word"

subsection \<open>Constants and tables\<close>

text \<open>The two pin levels \<^verbatim>\<open>HIGH\<close> and \<^verbatim>\<open>LOW\<close>. A relay is off when its pin is
  \<^verbatim>\<open>HIGH\<close> and energised when it is \<^verbatim>\<open>LOW\<close>.\<close>

datatype level = LOW | HIGH

datatype channelType_t = CH_FAN | CH_TEMP | CH_HUM

definition NUMBER_OF_RELAYS :: nat where
  "NUMBER_OF_RELAYS = 6"

definition EEPROM_ADDRESS :: nat where
  "EEPROM_ADDRESS = 0"

definition CHECKSUM_ADDRESS :: nat where
  "CHECKSUM_ADDRESS = EEPROM_ADDRESS + 1"

definition TEMP_HYSTERESIS_DEFAULT :: u16 where
  "TEMP_HYSTERESIS_DEFAULT = 10"

definition HUM_HYSTERESIS_DEFAULT :: u16 where
  "HUM_HYSTERESIS_DEFAULT = 10"

definition READ_INTERVAL_DEFAULT_S :: u16 where
  "READ_INTERVAL_DEFAULT_S = 30"

definition READ_INTERVAL_MIN :: u16 where
  "READ_INTERVAL_MIN = 30"

definition PARAMETER_START_EEPROM_ADDRESS :: nat where
  "PARAMETER_START_EEPROM_ADDRESS = 0x2000"

definition PARAMETER_MAX_NUMBER_OF :: nat where
  "PARAMETER_MAX_NUMBER_OF = 32"

definition PARAMETER_FIRST_NUMBER :: nat where
  "PARAMETER_FIRST_NUMBER = 64"

text \<open>The enumeration \<^verbatim>\<open>param_t\<close>: indices into the parameter array.\<close>

definition PARAM_TEMP_HYSTERESIS :: nat where
  "PARAM_TEMP_HYSTERESIS = 0"

definition PARAM_HUM_HYSTERESIS :: nat where
  "PARAM_HUM_HYSTERESIS = 1"

definition PARAM_READ_INTERVAL :: nat where
  "PARAM_READ_INTERVAL = 2"

definition PARAM_MAX :: nat where
  "PARAM_MAX = 3"

definition RELAY_PIN :: "u8 list" where
  "RELAY_PIN = [9, 10, 11, 12, 14, 15]"

text \<open>Row = fan speed, column = relay number.\<close>

definition relayTable :: "level list list" where
  "relayTable =
    [ [HIGH, HIGH, HIGH, HIGH, HIGH],
      [LOW,  HIGH, HIGH, HIGH, HIGH],
      [HIGH, HIGH, HIGH, HIGH, LOW ],
      [HIGH, LOW,  HIGH, HIGH, LOW ],
      [HIGH, HIGH, HIGH, LOW,  LOW ],
      [HIGH, HIGH, LOW,  LOW,  LOW ] ]"

definition parametersDefault :: "u16 list" where
  "parametersDefault =
    [TEMP_HYSTERESIS_DEFAULT, HUM_HYSTERESIS_DEFAULT, READ_INTERVAL_DEFAULT_S]"

subsection \<open>Speed mapping\<close>

text \<open>\<^verbatim>\<open>convertSpeed\<close>: a chain of strict comparisons on the unsigned byte.\<close>

definition convertSpeed :: "u8 \<Rightarrow> u8" where
  "convertSpeed percentage =
    (if percentage > 80 then 5
     else if percentage > 60 then 4
     else if percentage > 40 then 3
     else if percentage > 20 then 2
     else if percentage > 0 then 1
     else 0)"

subsection \<open>Device state\<close>

text \<open>
  The global variables of the sketch together with the hardware it drives: the output
  pins, the EEPROM and the Z-Wave reports sent so far. \<open>pinWrites\<close> records every
  \<^verbatim>\<open>digitalWrite\<close> in order, \<open>reports\<close> every \<^verbatim>\<open>zunoSendReport\<close>.
  \<open>lastMillis\<close> is the \<^verbatim>\<open>static\<close> local of \<^verbatim>\<open>loop\<close>.
\<close>

record device =
  pins :: "u8 \<Rightarrow> level"
  pinOutput :: "u8 \<Rightarrow> bool"
  pinWrites :: "(u8 \<times> level) list"
  eeprom :: "nat \<Rightarrow> u8"
  reports :: "channelType_t list"
  temperature :: i16
  sentTemperature :: i16
  humidity :: i16
  sentHumidity :: i16
  fanSpeed :: u8
  parameters :: "u16 list"
  pendingCfgParamSave :: bool
  lastMillis :: u32

text \<open>
  The state after a reset: the globals hold their initialisers, the EEPROM keeps its
  content \<open>e\<close>, and the pins are in whatever state \<open>p\<close> the hardware leaves them.
\<close>

definition power_on :: "(nat \<Rightarrow> u8) \<Rightarrow> (u8 \<Rightarrow> level) \<Rightarrow> device" where
  "power_on e p =
    \<lparr> pins = p, pinOutput = (\<lambda>_. False), pinWrites = [], eeprom = e, reports = [],
      temperature = 0, sentTemperature = 0, humidity = 0, sentHumidity = 0,
      fanSpeed = 0, parameters = replicate PARAM_MAX 0,
      pendingCfgParamSave = False, lastMillis = 0 \<rparr>"

subsection \<open>Board and library primitives\<close>

text \<open>
  Modelled from the spec: the digital I/O lines (\<^verbatim>\<open>pinMode\<close>, \<^verbatim>\<open>digitalWrite\<close>) of the
  board library, which is not part of the sketch: configuring a pin as output and
  writing a level to a line.
\<close>

definition pinMode_OUTPUT :: "u8 \<Rightarrow> device \<Rightarrow> device" where
  "pinMode_OUTPUT pin s = s\<lparr>pinOutput := (pinOutput s)(pin := True)\<rparr>"

definition digitalWrite :: "u8 \<Rightarrow> level \<Rightarrow> device \<Rightarrow> device" where
  "digitalWrite pin v s =
    s\<lparr>pins := (pins s)(pin := v), pinWrites := pinWrites s @ [(pin, v)]\<rparr>"

text \<open>
  Modelled from the spec: the non-volatile byte storage (\<^verbatim>\<open>EEPROM.read\<close>,
  \<^verbatim>\<open>EEPROM.update\<close>) of the board library: reading a byte at an address, and writing
  a byte only if it differs from the stored one.
\<close>

definition EEPROM_read :: "nat \<Rightarrow> device \<Rightarrow> u8" where
  "EEPROM_read a s = eeprom s a"

definition EEPROM_update :: "nat \<Rightarrow> u8 \<Rightarrow> device \<Rightarrow> device" where
  "EEPROM_update a v s =
    (if eeprom s a = v then s else s\<lparr>eeprom := (eeprom s)(a := v)\<rparr>)"

text \<open>The macros \<^verbatim>\<open>highByte\<close> and \<^verbatim>\<open>lowByte\<close> of the board library.\<close>

definition highByte :: "u16 \<Rightarrow> u8" where
  "highByte w = ucast (drop_bit 8 w)"

definition lowByte :: "u16 \<Rightarrow> u8" where
  "lowByte w = ucast (w AND 0xFF)"

text \<open>
  Modelled from the spec: \<^verbatim>\<open>zunoSaveCFGParam\<close> and \<^verbatim>\<open>zunoLoadCFGParam\<close> of the
  Z-Uno library, which is not part of the sketch. The parameter values are kept in
  declared order in a block of the same EEPROM, two bytes each, starting at
  \<^verbatim>\<open>PARAMETER_START_EEPROM_ADDRESS\<close> for parameter number
  \<^verbatim>\<open>PARAMETER_FIRST_NUMBER\<close>; these are the bytes \<^verbatim>\<open>verifyChecksum\<close> reads.
  The low byte is stored first. The sketch calls both with numbers from
  \<^verbatim>\<open>PARAMETER_FIRST_NUMBER\<close> upwards only.
\<close>

definition cfgParamAddress :: "nat \<Rightarrow> nat" where
  "cfgParamAddress n = PARAMETER_START_EEPROM_ADDRESS + 2 * (n - PARAMETER_FIRST_NUMBER)"

definition zunoSaveCFGParam :: "nat \<Rightarrow> u16 \<Rightarrow> device \<Rightarrow> device" where
  "zunoSaveCFGParam n v s =
    s\<lparr>eeprom := (eeprom s)(cfgParamAddress n := lowByte v,
                           cfgParamAddress n + 1 := highByte v)\<rparr>"

definition zunoLoadCFGParam :: "nat \<Rightarrow> device \<Rightarrow> u16" where
  "zunoLoadCFGParam n s =
    push_bit 8 (ucast (eeprom s (cfgParamAddress n + 1))) OR ucast (eeprom s (cfgParamAddress n))"

text \<open>
  Modelled from the spec: \<^verbatim>\<open>zunoSendReport\<close> of the Z-Uno library, which pushes an
  unsolicited report for a channel to the host.
\<close>

definition zunoSendReport :: "channelType_t \<Rightarrow> device \<Rightarrow> device" where
  "zunoSendReport ch s = s\<lparr>reports := reports s @ [ch]\<rparr>"

text \<open>
  The macro \<^verbatim>\<open>abs\<close> of the board library, \<^verbatim>\<open>((x)>0?(x):-(x))\<close>, at type
  \<^verbatim>\<open>int\<close>. On the Z-Uno (as on the 8-bit Arduino boards) \<^verbatim>\<open>int\<close> has 16 bits, so
  the difference of two \<^verbatim>\<open>int16_t\<close> values and its negation wrap around.
\<close>

definition abs_int :: "i16 \<Rightarrow> i16" where
  "abs_int x = (if 0 <s x then x else - x)"

subsection \<open>Relay driver and fan channel\<close>

text \<open>\<^verbatim>\<open>setSpeedRelays\<close>: the loop runs over the first five relays only.\<close>

definition setSpeedRelays :: "u8 \<Rightarrow> device \<Rightarrow> device" where
  "setSpeedRelays speedValue s =
    (if speedValue \<le> 5
     then fold (\<lambda>i. digitalWrite (RELAY_PIN ! i) (relayTable ! unat speedValue ! i))
            [0 ..< NUMBER_OF_RELAYS - 1] s
     else s)"

definition getterFan :: "device \<Rightarrow> u8" where
  "getterFan s = fanSpeed s"

definition setterFan :: "u8 \<Rightarrow> device \<Rightarrow> device" where
  "setterFan newValue s =
    EEPROM_update EEPROM_ADDRESS newValue
      (setSpeedRelays (convertSpeed newValue) (s\<lparr>fanSpeed := newValue\<rparr>))"

definition getterTemperature :: "device \<Rightarrow> u16" where
  "getterTemperature s = temperature s"

definition getterHumidity :: "device \<Rightarrow> u16" where
  "getterHumidity s = humidity s"

subsection \<open>Parameter store\<close>

definition setDefaultParameters :: "device \<Rightarrow> device" where
  "setDefaultParameters s = s\<lparr>parameters := parametersDefault\<rparr>"

definition loadParameters :: "device \<Rightarrow> device" where
  "loadParameters s =
    fold (\<lambda>i t. t\<lparr>parameters :=
                   (parameters t)[i := zunoLoadCFGParam (PARAMETER_FIRST_NUMBER + i) t]\<rparr>)
      [0 ..< PARAM_MAX] s"

text \<open>\<^verbatim>\<open>saveParameters\<close>: the loop carries the running checksum and the device.\<close>

definition saveParameters :: "device \<Rightarrow> device" where
  "saveParameters s =
    (let (checksum, t) =
           fold (\<lambda>i (c, t).
                   (c + highByte (parameters t ! i) + lowByte (parameters t ! i),
                    zunoSaveCFGParam (PARAMETER_FIRST_NUMBER + i) (parameters t ! i) t))
             [0 ..< PARAM_MAX] (0, s)
     in EEPROM_update CHECKSUM_ADDRESS checksum t)"

definition verifyChecksum :: "device \<Rightarrow> bool" where
  "verifyChecksum s =
    (let checksum =
           fold (\<lambda>i c. c + EEPROM_read (PARAMETER_START_EEPROM_ADDRESS + i) s)
             [0 ..< PARAM_MAX * 2] (0 :: u8);
         storedChecksum = EEPROM_read CHECKSUM_ADDRESS s
     in checksum = storedChecksum)"

subsection \<open>Boot and main loop\<close>

text \<open>
  \<^verbatim>\<open>setup\<close>. The debug output and \<^verbatim>\<open>dht22.begin()\<close> do not touch the state
  modelled here.
\<close>

definition setup_board :: "device \<Rightarrow> device" where
  "setup_board s =
    (let s1 = fold (\<lambda>i t. digitalWrite (RELAY_PIN ! i) HIGH (pinMode_OUTPUT (RELAY_PIN ! i) t))
                [0 ..< NUMBER_OF_RELAYS] s;
         s2 = setterFan (EEPROM_read EEPROM_ADDRESS s1) s1
     in if verifyChecksum s2 then loadParameters s2
        else saveParameters (setDefaultParameters s2))"

text \<open>
  One iteration of \<^verbatim>\<open>loop\<close>. Its inputs are what the environment would answer:
  \<open>currentMillis\<close> for \<^verbatim>\<open>millis()\<close>, \<open>readT\<close> and \<open>readH\<close> for the two sensor
  reads (made only when the read interval has elapsed). The product
  \<^verbatim>\<open>parameters[PARAM_READ_INTERVAL] * 1000\<close> is computed in 16 bits and then widened
  for the comparison with the 32-bit time difference; the hysteresis comparison is
  between a 16-bit \<^verbatim>\<open>int\<close> and a \<^verbatim>\<open>uint16_t\<close>, hence unsigned. The debug
  call of \<^verbatim>\<open>verifyChecksum\<close> at the end of a tick only reads and prints.
\<close>

definition loop :: "u32 \<Rightarrow> i16 \<Rightarrow> i16 \<Rightarrow> device \<Rightarrow> device" where
  "loop currentMillis readT readH s =
    (let s1 =
       (if currentMillis - lastMillis s \<ge> ucast (parameters s ! PARAM_READ_INTERVAL * 1000)
        then
          let t1 = s\<lparr>lastMillis := currentMillis, temperature := readT, humidity := readH\<rparr>;
              t2 = (if abs_int (temperature t1 - sentTemperature t1)
                         \<ge> parameters t1 ! PARAM_TEMP_HYSTERESIS
                    then (zunoSendReport CH_TEMP t1)\<lparr>sentTemperature := temperature t1\<rparr>
                    else t1);
              t3 = (if abs_int (humidity t2 - sentHumidity t2)
                         \<ge> parameters t2 ! PARAM_HUM_HYSTERESIS
                    then (zunoSendReport CH_HUM t2)\<lparr>sentHumidity := humidity t2\<rparr>
                    else t2)
          in t3
        else s)
     in if pendingCfgParamSave s1
        then (saveParameters s1)\<lparr>pendingCfgParamSave := False\<rparr>
        else s1)"

subsection \<open>Configuration parameter handler\<close>

text \<open>
  \<^verbatim>\<open>configParameterChanged\<close>. \<open>val\<close> is the value behind \<^verbatim>\<open>value_p\<close>; the handler
  works on a local copy. The subtraction is truncated to \<^verbatim>\<open>uint8_t\<close>.
\<close>

definition configParameterChanged :: "u8 \<Rightarrow> u16 \<Rightarrow> device \<Rightarrow> device" where
  "configParameterChanged param val s =
    (let paramNumber = (param - of_nat PARAMETER_FIRST_NUMBER :: u8)
     in if unat paramNumber \<ge> PARAM_MAX then s
        else
          let val' = (if unat paramNumber = PARAM_READ_INTERVAL \<and> val < READ_INTERVAL_MIN
                      then READ_INTERVAL_MIN else val)
          in s\<lparr>parameters := (parameters s)[unat paramNumber := val'],
               pendingCfgParamSave := True\<rparr>)"

text \<open>
  The caller of the handler, as the comment in \<^verbatim>\<open>configParameterChanged\<close> describes
  it: after the handler returns, the Z-Uno stack stores the input value itself in the
  parameter's EEPROM slot.
\<close>

definition hostStoreCFGParam :: "u8 \<Rightarrow> u16 \<Rightarrow> device \<Rightarrow> device" where
  "hostStoreCFGParam param val s =
    (if PARAMETER_FIRST_NUMBER \<le> unat param
        \<and> unat param < PARAMETER_FIRST_NUMBER + PARAMETER_MAX_NUMBER_OF
     then zunoSaveCFGParam (unat param) val s else s)"

subsection \<open>Runs of the device\<close>

text \<open>
  What can happen after \<^verbatim>\<open>setup\<close>: an iteration of \<^verbatim>\<open>loop\<close>, a fan command from
  the host, or a configuration parameter change (the handler, then the host's own
  store). The callbacks never interrupt \<^verbatim>\<open>loop\<close>.
\<close>

datatype event =
    LoopIteration u32 i16 i16
  | SetFan u8
  | CfgParameter u8 u16

fun step :: "event \<Rightarrow> device \<Rightarrow> device" where
  "step (LoopIteration currentMillis readT readH) s = loop currentMillis readT readH s"
| "step (SetFan v) s = setterFan v s"
| "step (CfgParameter param val) s =
     hostStoreCFGParam param val (configParameterChanged param val s)"

definition run :: "event list \<Rightarrow> device \<Rightarrow> device" where
  "run evs s = fold step evs s"

text \<open>
  The checksum of a parameter array as the specification words it: the sum modulo 256
  of the high byte and the low byte of every parameter value, in declared order.
\<close>

definition parameterChecksum :: "u16 list \<Rightarrow> u8" where
  "parameterChecksum ps = (\<Sum>i \<leftarrow> [0 ..< PARAM_MAX]. highByte (ps ! i) + lowByte (ps ! i))"

subsection \<open>A sample device\<close>

text \<open>
  A factory-fresh board for the examples: every EEPROM byte reads \<^verbatim>\<open>0xFF\<close>, so the
  stored checksum does not match and the first boot falls back to the defaults.
\<close>

definition erased_eeprom :: "nat \<Rightarrow> u8" where
  "erased_eeprom a = 0xFF"

definition idle_pins :: "u8 \<Rightarrow> level" where
  "idle_pins pin = HIGH"

definition first_boot :: device where
  "first_boot = setup_board (power_on erased_eeprom idle_pins)"

section \<open>Auxiliary facts\<close>

subsection \<open>Loop ranges\<close>

lemma upt_PARAM_MAX: "[0 ..< PARAM_MAX] = [0, 1, 2]"
  by (simp add: PARAM_MAX_def upt_rec)

lemma upt_PARAM_MAX2: "[0 ..< PARAM_MAX * 2] = [0, 1, 2, 3, 4, 5]"
  by (simp add: PARAM_MAX_def upt_rec)

lemma upt_relays: "[0 ..< NUMBER_OF_RELAYS] = [0, 1, 2, 3, 4, 5]"
  by (simp add: NUMBER_OF_RELAYS_def upt_rec)

lemma upt_relays1: "[0 ..< NUMBER_OF_RELAYS - Suc 0] = [0, 1, 2, 3, 4]"
  by (simp add: NUMBER_OF_RELAYS_def upt_rec)

subsection \<open>Bytes of a parameter value\<close>

lemma lowByte_ucast: "lowByte w = ucast w"
proof -
  have "(0xFF :: u16) = mask 8" by (simp add: mask_eq_exp_minus_1)
  then have "w AND 0xFF = take_bit 8 w" by (simp add: take_bit_eq_mask)
  then show ?thesis
    unfolding lowByte_def by (intro bit_word_eqI) (auto simp: bit_simps)
qed

lemma join_bytes: "push_bit 8 (ucast (highByte w)) OR ucast (lowByte w) = w"
  unfolding lowByte_ucast highByte_def
  by (rule bit_word_eqI) (auto simp: bit_simps)

lemma highByte_join: "highByte (push_bit 8 (ucast (h :: u8)) OR ucast (l :: u8)) = h"
  unfolding highByte_def
  by (rule bit_word_eqI) (auto simp: bit_simps dest: bit_imp_le_length)

lemma lowByte_join: "lowByte (push_bit 8 (ucast (h :: u8)) OR ucast (l :: u8)) = l"
  unfolding lowByte_ucast
  by (rule bit_word_eqI) (auto simp: bit_simps)

subsection \<open>Speed levels and relays\<close>

lemma level_le5:
  assumes "(l :: u8) \<le> 5"
  shows "l = 0 \<or> l = 1 \<or> l = 2 \<or> l = 3 \<or> l = 4 \<or> l = 5"
proof -
  from assms have "unat l \<le> 5" by (simp add: word_le_nat_alt)
  then have "unat l = 0 \<or> unat l = 1 \<or> unat l = 2 \<or> unat l = 3 \<or> unat l = 4 \<or> unat l = 5"
    by arith
  then show ?thesis
    by (simp add: word_unat_eq_iff)
qed

lemma setSpeedRelays_le5:
  assumes "l \<le> 5"
  shows "setSpeedRelays l s =
     s\<lparr>pins := (pins s)(9 := relayTable ! unat l ! 0, 10 := relayTable ! unat l ! 1,
                       11 := relayTable ! unat l ! 2, 12 := relayTable ! unat l ! 3,
                       14 := relayTable ! unat l ! 4),
       pinWrites := pinWrites s @ zip (take 5 RELAY_PIN) (relayTable ! unat l)\<rparr>"
proof -
  have len: "length (relayTable ! unat l) = 5"
    using level_le5 [OF assms] by (auto simp: relayTable_def)
  then obtain a b c d e where row: "relayTable ! unat l = [a, b, c, d, e]"
    by (auto simp: length_Suc_conv eval_nat_numeral)
  show ?thesis
    using assms
    by (simp add: setSpeedRelays_def upt_relays1 digitalWrite_def RELAY_PIN_def row)
qed

lemma convertSpeed_le5: "convertSpeed p \<le> 5"
  by (simp add: convertSpeed_def)

lemma setSpeedRelays_gt5: "\<not> l \<le> 5 \<Longrightarrow> setSpeedRelays l s = s"
  by (simp add: setSpeedRelays_def)

lemma relayTable_row:
  "(l :: u8) \<le> 5 \<Longrightarrow>
     relayTable ! unat l = [relayTable ! unat l ! 0, relayTable ! unat l ! 1,
        relayTable ! unat l ! 2, relayTable ! unat l ! 3, relayTable ! unat l ! 4]"
  using level_le5 [of l] by (auto simp: relayTable_def)

lemma setSpeedRelays_pins5:
  "l \<le> 5 \<Longrightarrow> map (pins (setSpeedRelays l s)) (take 5 RELAY_PIN) = relayTable ! unat l"
proof -
  assume l: "l \<le> 5"
  let ?r = "relayTable ! unat l"
  have "map (pins (setSpeedRelays l s)) (take 5 RELAY_PIN) = [?r ! 0, ?r ! 1, ?r ! 2, ?r ! 3, ?r ! 4]"
    by (simp add: setSpeedRelays_le5 [OF l] RELAY_PIN_def)
  also have "\<dots> = ?r"
    by (rule relayTable_row [OF l, symmetric])
  finally show ?thesis .
qed

subsection \<open>Storage\<close>

lemma EEPROM_update_eq: "EEPROM_update a v s = s\<lparr>eeprom := (eeprom s)(a := v)\<rparr>"
  by (cases "eeprom s a = v") (auto simp: EEPROM_update_def)

lemma power_on_eeprom: "eeprom (power_on e p0) = e"
  by (simp add: power_on_def)

lemma saveParameters_eq:
  "saveParameters s =
     s\<lparr>eeprom := (eeprom s)
        (0x2000 := lowByte (parameters s ! 0), 0x2001 := highByte (parameters s ! 0),
         0x2002 := lowByte (parameters s ! 1), 0x2003 := highByte (parameters s ! 1),
         0x2004 := lowByte (parameters s ! 2), 0x2005 := highByte (parameters s ! 2),
         1 := parameterChecksum (parameters s))\<rparr>"
  by (simp add: saveParameters_def upt_PARAM_MAX zunoSaveCFGParam_def cfgParamAddress_def
      PARAMETER_START_EEPROM_ADDRESS_def PARAMETER_FIRST_NUMBER_def EEPROM_update_eq
      CHECKSUM_ADDRESS_def EEPROM_ADDRESS_def parameterChecksum_def add.assoc)

lemma verifyChecksum_eq:
  "verifyChecksum s =
    (eeprom s 0x2000 + eeprom s 0x2001 + eeprom s 0x2002 + eeprom s 0x2003
       + eeprom s 0x2004 + eeprom s 0x2005 = eeprom s 1)"
  by (simp add: verifyChecksum_def upt_PARAM_MAX2 EEPROM_read_def
      PARAMETER_START_EEPROM_ADDRESS_def CHECKSUM_ADDRESS_def EEPROM_ADDRESS_def)

lemma parameterChecksum_eq:
  "parameterChecksum ps =
     highByte (ps ! 0) + lowByte (ps ! 0) + highByte (ps ! 1) + lowByte (ps ! 1)
       + highByte (ps ! 2) + lowByte (ps ! 2)"
  by (simp add: parameterChecksum_def upt_PARAM_MAX add.assoc)

lemma verifyChecksum_saveParameters: "verifyChecksum (saveParameters s)"
  by (simp add: verifyChecksum_eq saveParameters_eq parameterChecksum_eq add.commute add.left_commute)

lemma load_saveParameters:
  "map (\<lambda>i. zunoLoadCFGParam (PARAMETER_FIRST_NUMBER + i) (saveParameters s)) [0 ..< PARAM_MAX]
     = [parameters s ! 0, parameters s ! 1, parameters s ! 2]"
  by (simp add: upt_PARAM_MAX zunoLoadCFGParam_def cfgParamAddress_def saveParameters_eq
       PARAMETER_START_EEPROM_ADDRESS_def PARAMETER_FIRST_NUMBER_def join_bytes)

lemma loadParameters_eq:
  "loadParameters s =
     s\<lparr>parameters := (parameters s)
         [0 := zunoLoadCFGParam 64 s, 1 := zunoLoadCFGParam 65 s, 2 := zunoLoadCFGParam 66 s]\<rparr>"
  by (simp add: loadParameters_def upt_PARAM_MAX PARAMETER_FIRST_NUMBER_def zunoLoadCFGParam_def)

subsection \<open>Fan channel and boot\<close>

lemma setterFan_eq:
  "setterFan v s =
     s\<lparr>fanSpeed := v,
       pins := (pins s)(9 := relayTable ! unat (convertSpeed v) ! 0,
                        10 := relayTable ! unat (convertSpeed v) ! 1,
                        11 := relayTable ! unat (convertSpeed v) ! 2,
                        12 := relayTable ! unat (convertSpeed v) ! 3,
                        14 := relayTable ! unat (convertSpeed v) ! 4),
       pinWrites := pinWrites s @ zip (take 5 RELAY_PIN) (relayTable ! unat (convertSpeed v)),
       eeprom := (eeprom s)(0 := v)\<rparr>"
  by (simp add: setterFan_def setSpeedRelays_le5 [OF convertSpeed_le5] EEPROM_update_eq
        EEPROM_ADDRESS_def)

lemma init_relays_eq:
  "fold (\<lambda>i t. digitalWrite (RELAY_PIN ! i) HIGH (pinMode_OUTPUT (RELAY_PIN ! i) t))
      [0 ..< NUMBER_OF_RELAYS] s =
    s\<lparr>pinOutput := (pinOutput s)(9 := True, 10 := True, 11 := True, 12 := True,
                                   14 := True, 15 := True),
      pins := (pins s)(9 := HIGH, 10 := HIGH, 11 := HIGH, 12 := HIGH, 14 := HIGH, 15 := HIGH),
      pinWrites := pinWrites s @ [(9, HIGH), (10, HIGH), (11, HIGH), (12, HIGH),
                                  (14, HIGH), (15, HIGH)]\<rparr>"
  by (simp add: upt_relays RELAY_PIN_def digitalWrite_def pinMode_OUTPUT_def)

lemmas setup_simps =
  setup_board_def init_relays_eq setterFan_eq EEPROM_read_def EEPROM_ADDRESS_def
  verifyChecksum_eq Let_def loadParameters_eq saveParameters_eq setDefaultParameters_def

lemma setup_fanSpeed: "fanSpeed (setup_board s) = eeprom s 0"
  by (simp add: setup_simps)

lemma setup_pending: "pendingCfgParamSave (setup_board s) = pendingCfgParamSave s"
  by (simp add: setup_simps)

lemma setup_pins:
  "map (pins (setup_board s)) (take 5 RELAY_PIN) = relayTable ! unat (convertSpeed (eeprom s 0))"
proof -
  let ?r = "relayTable ! unat (convertSpeed (eeprom s 0))"
  have "map (pins (setup_board s)) [9, 10, 11, 12, 14] = [?r ! 0, ?r ! 1, ?r ! 2, ?r ! 3, ?r ! 4]"
    by (simp add: setup_simps)
  then have "map (pins (setup_board s)) (take 5 RELAY_PIN) = [?r ! 0, ?r ! 1, ?r ! 2, ?r ! 3, ?r ! 4]"
    by (simp add: RELAY_PIN_def)
  also have "\<dots> = ?r"
    by (rule relayTable_row [OF convertSpeed_le5, symmetric])
  finally show ?thesis .
qed

lemma setup_parameters:
  "parameters (setup_board s) =
     (if verifyChecksum s
      then (parameters s)[0 := zunoLoadCFGParam 64 s, 1 := zunoLoadCFGParam 65 s,
                          2 := zunoLoadCFGParam 66 s]
      else parametersDefault)"
  by (simp add: setup_simps zunoLoadCFGParam_def)

lemma setup_eeprom_valid:
  "verifyChecksum s \<Longrightarrow> eeprom (setup_board s) = eeprom s"
  by (simp add: setup_simps)

lemma setup_corrupt:
  "\<not> verifyChecksum s \<Longrightarrow>
     setup_board s = saveParameters ((setup_board s)\<lparr>parameters := parametersDefault\<rparr>)"
  by (simp add: setup_simps)

subsection \<open>Signed 16-bit arithmetic\<close>

lemma sint_uint_16:
  "sint (x :: i16) = (if uint x < 32768 then uint x else uint x - 65536)"
proof -
  have b: "0 \<le> uint x" "uint x < 65536"
    using uint_lt2p [of x] by simp_all
  have s: "sint x = (uint x + 32768) mod 65536 - 32768"
    by (simp add: sint_uint signed_take_bit_eq_take_bit_shift take_bit_eq_mod)
  show ?thesis
  proof (cases "uint x < 32768")
    case True
    with b have "(uint x + 32768) mod 65536 = uint x + 32768"
      by (intro mod_pos_pos_trivial) arith+
    with s True show ?thesis by simp
  next
    case False
    have "(uint x + 32768) mod 65536 = ((uint x - 32768) + 65536) mod 65536"
      by (simp add: algebra_simps)
    also have "\<dots> = (uint x - 32768) mod 65536"
      by (rule mod_add_self2)
    also have "\<dots> = uint x - 32768"
      using b False by (intro mod_pos_pos_trivial) arith+
    finally show ?thesis using s False by simp
  qed
qed

lemma uint_neg_16:
  "uint (- (x :: i16)) = (if uint x = 0 then 0 else 65536 - uint x)"
proof -
  have b: "0 \<le> uint x" "uint x < 65536"
    using uint_lt2p [of x] by simp_all
  have n: "uint (- x) = (- uint x) mod 65536"
    by (simp add: uint_word_ariths)
  show ?thesis
  proof (cases "uint x = 0")
    case True
    with n show ?thesis by simp
  next
    case False
    have "(- uint x) mod 65536 = (65536 + (- uint x)) mod 65536"
      by (rule mod_add_self1 [symmetric])
    also have "\<dots> = (65536 - uint x) mod 65536"
      by simp
    also have "\<dots> = 65536 - uint x"
      using b False by (intro mod_pos_pos_trivial) arith+
    finally show ?thesis using n False by simp
  qed
qed

lemma uint_abs_int: "uint (abs_int x) = \<bar>sint x\<bar>"
proof -
  have b: "0 \<le> uint x" "uint x < 65536"
    using uint_lt2p [of x] by simp_all
  show ?thesis
  proof (cases "0 < sint x")
    case True
    then have "abs_int x = x" by (simp add: abs_int_def word_sless_alt)
    moreover from True b have "sint x = uint x"
      by (simp add: sint_uint_16 split: if_splits)
    ultimately show ?thesis using b by simp
  next
    case False
    then have a: "abs_int x = - x" by (simp add: abs_int_def word_sless_alt)
    from b have z: "uint x = 0 \<or> 0 < uint x" by arith
    from False z have "uint (- x) = - sint x"
      by (auto simp: sint_uint_16 uint_neg_16 split: if_splits)
    with a False show ?thesis by simp
  qed
qed

lemma sint_diff_in_range:
  assumes "- 32768 \<le> sint (t :: i16) - sint (u :: i16)" "sint t - sint u \<le> 32767"
  shows "sint (t - u) = sint t - sint u"
  using assms by (simp add: sint_word_diff signed_take_bit_int_eq_self)

lemma hysteresis_test:
  assumes "- 32768 \<le> sint (t :: i16) - sint (u :: i16)" "sint t - sint u \<le> 32767"
  shows "(h \<le> abs_int (t - u)) = (uint h \<le> \<bar>sint t - sint u\<bar>)"
  by (simp add: word_le_def uint_abs_int sint_diff_in_range [OF assms])

subsection \<open>One loop iteration\<close>

lemma loop_reports:
  "reports (loop cm t h s) =
     reports s @
       (if ucast (parameters s ! PARAM_READ_INTERVAL * 1000) \<le> cm - lastMillis s
        then (if parameters s ! PARAM_TEMP_HYSTERESIS \<le> abs_int (t - sentTemperature s)
              then [CH_TEMP] else [])
           @ (if parameters s ! PARAM_HUM_HYSTERESIS \<le> abs_int (h - sentHumidity s)
              then [CH_HUM] else [])
        else [])"
  by (simp add: loop_def Let_def zunoSendReport_def saveParameters_eq)

lemma loop_sentTemperature:
  "sentTemperature (loop cm t h s) =
     (if ucast (parameters s ! PARAM_READ_INTERVAL * 1000) \<le> cm - lastMillis s
         \<and> parameters s ! PARAM_TEMP_HYSTERESIS \<le> abs_int (t - sentTemperature s)
      then t else sentTemperature s)"
  by (simp add: loop_def Let_def zunoSendReport_def saveParameters_eq)

lemma loop_sentHumidity:
  "sentHumidity (loop cm t h s) =
     (if ucast (parameters s ! PARAM_READ_INTERVAL * 1000) \<le> cm - lastMillis s
         \<and> parameters s ! PARAM_HUM_HYSTERESIS \<le> abs_int (h - sentHumidity s)
      then h else sentHumidity s)"
  by (simp add: loop_def Let_def zunoSendReport_def saveParameters_eq)

lemma loop_lastMillis:
  "lastMillis (loop cm t h s) =
     (if ucast (parameters s ! PARAM_READ_INTERVAL * 1000) \<le> cm - lastMillis s
      then cm else lastMillis s)"
  by (simp add: loop_def Let_def zunoSendReport_def saveParameters_eq)

lemma loop_parameters: "parameters (loop cm t h s) = parameters s"
  by (simp add: loop_def Let_def zunoSendReport_def saveParameters_eq)

lemma loop_pending: "\<not> pendingCfgParamSave (loop cm t h s)"
  by (simp add: loop_def Let_def zunoSendReport_def saveParameters_eq)

lemma loop_eeprom:
  "eeprom (loop cm t h s) =
     (if pendingCfgParamSave s then eeprom (saveParameters s) else eeprom s)"
  by (simp add: loop_def Let_def zunoSendReport_def saveParameters_eq)

subsection \<open>Parameter changes\<close>

lemma three_elems: "length ps = 3 \<Longrightarrow> ps = [ps ! 0, ps ! 1, ps ! 2]"
  by (auto simp: length_Suc_conv eval_nat_numeral)

lemma paramNumber_in_range:
  assumes "unat (q :: u8) \<in> {64, 65, 66}"
  shows "unat (q - 64) = unat q - 64" "unat (q - 64) < PARAM_MAX"
proof -
  have "(64 :: u8) \<le> q" using assms by (auto simp: word_le_nat_alt)
  then show "unat (q - 64) = unat q - 64" by (simp add: unat_sub)
  with assms show "unat (q - 64) < PARAM_MAX" by (auto simp: PARAM_MAX_def)
qed

lemma configParameterChanged_eq:
  assumes "unat q \<in> {64, 65, 66}"
  shows "configParameterChanged q v s =
     s\<lparr>parameters := (parameters s)
           [unat q - 64 := (if unat q = 66 \<and> v < 30 then 30 else v)],
       pendingCfgParamSave := True\<rparr>"
  using assms paramNumber_in_range [OF assms]
  by (auto simp: configParameterChanged_def PARAMETER_FIRST_NUMBER_def Let_def
       PARAM_READ_INTERVAL_def READ_INTERVAL_MIN_def)

subsection \<open>The stored checksum along a run\<close>

lemma power_on_fields:
  "parameters (power_on e p0) = [0, 0, 0]"
  "pendingCfgParamSave (power_on e p0) = False"
  "lastMillis (power_on e p0) = 0"
  "sentTemperature (power_on e p0) = 0"
  "sentHumidity (power_on e p0) = 0"
  "reports (power_on e p0) = []"
  by (simp_all add: power_on_def PARAM_MAX_def eval_nat_numeral)

lemma setup_sensor_fields:
  "lastMillis (setup_board s) = lastMillis s"
  "sentTemperature (setup_board s) = sentTemperature s"
  "sentHumidity (setup_board s) = sentHumidity s"
  "reports (setup_board s) = reports s"
  by (simp_all add: setup_simps)

lemma setup_checksum:
  "eeprom (setup_board (power_on e p0)) CHECKSUM_ADDRESS
     = parameterChecksum (parameters (setup_board (power_on e p0)))"
proof (cases "verifyChecksum (power_on e p0)")
  case True
  then have v: "e 0x2000 + e 0x2001 + e 0x2002 + e 0x2003 + e 0x2004 + e 0x2005 = e 1"
    by (simp add: verifyChecksum_eq power_on_eeprom)
  have "parameterChecksum (parameters (setup_board (power_on e p0)))
          = e 0x2001 + e 0x2000 + e 0x2003 + e 0x2002 + e 0x2005 + e 0x2004"
    using True
    by (simp add: setup_parameters power_on_fields parameterChecksum_eq zunoLoadCFGParam_def
          cfgParamAddress_def PARAMETER_START_EEPROM_ADDRESS_def PARAMETER_FIRST_NUMBER_def
          power_on_eeprom highByte_join lowByte_join)
  also have "\<dots> = e 1"
    unfolding v [symmetric] by (simp add: add.commute add.left_commute)
  finally show ?thesis
    using True by (simp add: setup_eeprom_valid power_on_eeprom CHECKSUM_ADDRESS_def EEPROM_ADDRESS_def)
next
  case False
  let ?t = "(setup_board (power_on e p0))\<lparr>parameters := parametersDefault\<rparr>"
  have eq: "setup_board (power_on e p0) = saveParameters ?t"
    by (rule setup_corrupt [OF False])
  have "eeprom (saveParameters ?t) CHECKSUM_ADDRESS = parameterChecksum (parameters (saveParameters ?t))"
    by (simp add: saveParameters_eq CHECKSUM_ADDRESS_def EEPROM_ADDRESS_def)
  with eq show ?thesis by simp
qed

lemma hostStoreCFGParam_fields:
  "eeprom (hostStoreCFGParam q v s) CHECKSUM_ADDRESS = eeprom s CHECKSUM_ADDRESS"
  "parameters (hostStoreCFGParam q v s) = parameters s"
  "pendingCfgParamSave (hostStoreCFGParam q v s) = pendingCfgParamSave s"
  by (simp_all add: hostStoreCFGParam_def zunoSaveCFGParam_def cfgParamAddress_def
        PARAMETER_START_EEPROM_ADDRESS_def CHECKSUM_ADDRESS_def EEPROM_ADDRESS_def)

lemma configParameterChanged_cases:
  "configParameterChanged q v s = s \<or> pendingCfgParamSave (configParameterChanged q v s)"
  by (simp add: configParameterChanged_def Let_def)

lemma loop_checksum:
  assumes "pendingCfgParamSave s \<or> eeprom s CHECKSUM_ADDRESS = parameterChecksum (parameters s)"
  shows "eeprom (loop cm t h s) CHECKSUM_ADDRESS = parameterChecksum (parameters (loop cm t h s))"
  using assms
  by (auto simp: loop_eeprom loop_parameters saveParameters_eq CHECKSUM_ADDRESS_def EEPROM_ADDRESS_def)

lemma step_checksum:
  assumes "pendingCfgParamSave s \<or> eeprom s CHECKSUM_ADDRESS = parameterChecksum (parameters s)"
  shows "pendingCfgParamSave (step ev s)
           \<or> eeprom (step ev s) CHECKSUM_ADDRESS = parameterChecksum (parameters (step ev s))"
proof (cases ev)
  case (LoopIteration cm t h)
  then show ?thesis using loop_checksum [OF assms] by simp
next
  case (SetFan v)
  then show ?thesis using assms
    by (auto simp: setterFan_eq CHECKSUM_ADDRESS_def EEPROM_ADDRESS_def)
next
  case (CfgParameter q v)
  then show ?thesis
    using assms configParameterChanged_cases [of q v s]
    by (auto simp: hostStoreCFGParam_fields)
qed

lemma run_checksum:
  "pendingCfgParamSave s \<or> eeprom s CHECKSUM_ADDRESS = parameterChecksum (parameters s) \<Longrightarrow>
     pendingCfgParamSave (run evs s)
       \<or> eeprom (run evs s) CHECKSUM_ADDRESS = parameterChecksum (parameters (run evs s))"
proof (induction evs arbitrary: s)
  case Nil
  then show ?case by (simp add: run_def)
next
  case (Cons ev evs)
  have "run (ev # evs) s = run evs (step ev s)"
    by (simp add: run_def)
  then show ?case
    using Cons.IH [OF step_checksum [OF Cons.prems]] by simp
qed

subsection \<open>The sample device\<close>

lemma first_boot_fields:
  "parameters first_boot = [10, 10, 30]"
  "pendingCfgParamSave first_boot = False"
  "lastMillis first_boot = 0"
  "sentTemperature first_boot = 0"
  "sentHumidity first_boot = 0"
  "reports first_boot = []"
proof -
  have "\<not> verifyChecksum (power_on erased_eeprom idle_pins)"
    by (simp add: verifyChecksum_eq power_on_eeprom erased_eeprom_def)
  then show "parameters first_boot = [10, 10, 30]"
    by (simp add: first_boot_def setup_parameters parametersDefault_def
          TEMP_HYSTERESIS_DEFAULT_def HUM_HYSTERESIS_DEFAULT_def READ_INTERVAL_DEFAULT_S_def)
qed (simp_all add: first_boot_def setup_sensor_fields setup_pending power_on_fields)

lemmas param_index_defs =
  PARAM_TEMP_HYSTERESIS_def PARAM_HUM_HYSTERESIS_def PARAM_READ_INTERVAL_def

lemma cold_reading_fields:
  "parameters (run [LoopIteration 30000 (- 32768) 0] first_boot) = [10, 10, 30]"
  "lastMillis (run [LoopIteration 30000 (- 32768) 0] first_boot) = 30000"
  "sentTemperature (run [LoopIteration 30000 (- 32768) 0] first_boot) = - 32768"
  "reports (run [LoopIteration 30000 (- 32768) 0] first_boot) = [CH_TEMP]"
  by (simp_all add: run_def loop_parameters loop_lastMillis loop_sentTemperature loop_reports
        first_boot_fields param_index_defs abs_int_def word_sless_alt)

section \<open>Properties\<close>

subsection \<open>Speed mapping\<close>

text \<open>
  C1. On the percentages 0..99 the mapping is exactly: 0 gives 0 (off), 1..20 give 1,
  21..40 give 2, 41..60 give 3, 61..80 give 4 and 81..99 give 5; so 20 maps to 1 and 21
  maps to 2.
\<close>

theorem convertSpeed_table:
  "unat p \<le> 99 \<Longrightarrow>
     (unat p = 0 \<longrightarrow> convertSpeed p = 0)
     \<and> (unat p \<in> {1..20} \<longrightarrow> convertSpeed p = 1)
     \<and> (unat p \<in> {21..40} \<longrightarrow> convertSpeed p = 2)
     \<and> (unat p \<in> {41..60} \<longrightarrow> convertSpeed p = 3)
     \<and> (unat p \<in> {61..80} \<longrightarrow> convertSpeed p = 4)
     \<and> (unat p \<in> {81..99} \<longrightarrow> convertSpeed p = 5)
     \<and> convertSpeed 20 = 1 \<and> convertSpeed 21 = 2"
  by (auto simp: convertSpeed_def word_less_nat_alt)

theorem convertSpeed_table_witness:
  "unat (20 :: u8) \<le> 99 \<and> unat (20 :: u8) \<in> {1..20} \<and> convertSpeed 20 = 1
   \<and> unat (81 :: u8) \<le> 99 \<and> unat (81 :: u8) \<in> {81..99} \<and> convertSpeed 81 = 5"
  using convertSpeed_table [of 20] convertSpeed_table [of 81]
  by simp

text \<open>
  C9. \<^verbatim>\<open>convertSpeed\<close> has a result for every byte, with no error path and no range
  check: every input from 100 to 255 gives 5 (full), and no input gives more than 5. So
  the boot replay accepts a persisted byte above 99: the fan channel reads back that
  byte and the relays stand as for full speed.
\<close>

theorem convertSpeed_above_99:
  "(100 \<le> unat p \<longrightarrow> convertSpeed p = 5)
   \<and> convertSpeed p \<le> 5
   \<and> (100 \<le> unat (e EEPROM_ADDRESS) \<longrightarrow>
        getterFan (setup_board (power_on e p0)) = e EEPROM_ADDRESS
      \<and> map (pins (setup_board (power_on e p0))) (take 5 RELAY_PIN) = relayTable ! 5)"
proof -
  have a: "100 \<le> unat q \<Longrightarrow> convertSpeed q = 5" for q
    by (simp add: convertSpeed_def word_less_nat_alt)
  show ?thesis
    using a [of p] a [of "e 0"]
    by (simp add: convertSpeed_le5 getterFan_def setup_fanSpeed setup_pins power_on_eeprom
          EEPROM_ADDRESS_def)
qed

theorem convertSpeed_above_99_witness:
  "100 \<le> unat (255 :: u8) \<and> convertSpeed 255 = 5
   \<and> 100 \<le> unat (((\<lambda>_. 0)(0 := 200 :: u8)) EEPROM_ADDRESS)
   \<and> getterFan (setup_board (power_on ((\<lambda>_. 0)(0 := 200)) (\<lambda>_. HIGH))) = 200"
  using convertSpeed_above_99 [of 255 "(\<lambda>_. 0)(0 := 200)" "\<lambda>_. HIGH"]
  by (simp add: EEPROM_ADDRESS_def)

subsection \<open>Relay driver\<close>

text \<open>
  C7. The writes of \<^verbatim>\<open>setSpeedRelays\<close>: for a level up to 5, one write to each of the
  five controlled relay pins, in order, with the cells of the level's table row; for a
  level above 5, no write at all and an unchanged device. The sixth relay pin is never
  written and keeps its level.
\<close>

theorem setSpeedRelays_footprint:
  "pinWrites (setSpeedRelays l s) =
      pinWrites s @ (if l \<le> 5 then zip (take 5 RELAY_PIN) (relayTable ! unat l) else [])
   \<and> map fst (drop (length (pinWrites s)) (pinWrites (setSpeedRelays l s)))
        = (if l \<le> 5 then take 5 RELAY_PIN else [])
   \<and> RELAY_PIN ! 5 \<notin> set (map fst (drop (length (pinWrites s)) (pinWrites (setSpeedRelays l s))))
   \<and> pins (setSpeedRelays l s) (RELAY_PIN ! 5) = pins s (RELAY_PIN ! 5)
   \<and> (5 < l \<longrightarrow> setSpeedRelays l s = s)"
proof (cases "l \<le> 5")
  case True
  have len: "length (relayTable ! unat l) = 5"
    by (subst relayTable_row [OF True]) simp
  have w: "pinWrites (setSpeedRelays l s) = pinWrites s @ zip (take 5 RELAY_PIN) (relayTable ! unat l)"
    by (simp add: setSpeedRelays_le5 [OF True])
  have f: "map fst (zip (take 5 RELAY_PIN) (relayTable ! unat l)) = take 5 RELAY_PIN"
    by (rule map_fst_zip) (simp add: len RELAY_PIN_def)
  have p: "pins (setSpeedRelays l s) (RELAY_PIN ! 5) = pins s (RELAY_PIN ! 5)"
    by (simp add: setSpeedRelays_le5 [OF True] RELAY_PIN_def)
  show ?thesis using True by (simp add: w f p) (simp add: RELAY_PIN_def)
next
  case False
  then show ?thesis by (simp add: setSpeedRelays_gt5)
qed

theorem setSpeedRelays_footprint_witness:
  "(5 :: u8) < 6
   \<and> setSpeedRelays 6 (power_on (\<lambda>_. 0) (\<lambda>_. HIGH)) = power_on (\<lambda>_. 0) (\<lambda>_. HIGH)
   \<and> map fst (drop (length (pinWrites (power_on (\<lambda>_. 0) (\<lambda>_. HIGH))))
              (pinWrites (setSpeedRelays 2 (power_on (\<lambda>_. 0) (\<lambda>_. HIGH)))))
        = [9, 10, 11, 12, 14]"
  using setSpeedRelays_footprint [of 6 "power_on (\<lambda>_. 0) (\<lambda>_. HIGH)"]
    setSpeedRelays_footprint [of 2 "power_on (\<lambda>_. 0) (\<lambda>_. HIGH)"]
  by (simp add: RELAY_PIN_def relayTable_def)

text \<open>
  C8. \<^verbatim>\<open>setSpeedRelays(3)\<close> (mid speed) leaves relay channels 2 and 5 active (low)
  and channels 1, 3 and 4 inactive (high), as row 3 of the relay table says.
\<close>

theorem setSpeedRelays_mid:
  "map (pins (setSpeedRelays 3 s)) (take 5 RELAY_PIN) = [HIGH, LOW, HIGH, HIGH, LOW]
   \<and> relayTable ! 3 = [HIGH, LOW, HIGH, HIGH, LOW]
   \<and> filter (\<lambda>i. pins (setSpeedRelays 3 s) (RELAY_PIN ! i) = LOW) [0, 1, 2, 3, 4] = [1, 4]
   \<and> filter (\<lambda>i. pins (setSpeedRelays 3 s) (RELAY_PIN ! i) = HIGH) [0, 1, 2, 3, 4] = [0, 2, 3]"
  by (simp add: setSpeedRelays_le5 RELAY_PIN_def relayTable_def)

subsection \<open>Persistent fan speed\<close>

text \<open>
  C2. After \<^verbatim>\<open>setterFan(p)\<close> and a reboot on the EEPROM it leaves behind,
  \<^verbatim>\<open>getterFan\<close> returns \<open>p\<close> and the five controlled relay pins stand as
  \<^verbatim>\<open>setSpeedRelays(convertSpeed(p))\<close> sets them, for every byte \<open>p\<close>.
\<close>

theorem setterFan_reboot_roundtrip:
  "getterFan (setup_board (power_on (eeprom (setterFan p s)) p0)) = p
   \<and> map (pins (setup_board (power_on (eeprom (setterFan p s)) p0))) (take 5 RELAY_PIN)
       = map (pins (setSpeedRelays (convertSpeed p) t)) (take 5 RELAY_PIN)"
  by (simp add: getterFan_def setup_fanSpeed setup_pins power_on_eeprom
        setSpeedRelays_pins5 [OF convertSpeed_le5] setterFan_eq)

theorem setterFan_reboot_roundtrip_witness:
  "getterFan (setup_board (power_on (eeprom (setterFan 50 (power_on (\<lambda>_. 0) (\<lambda>_. HIGH))))
      (\<lambda>_. HIGH))) = 50"
  using setterFan_reboot_roundtrip [of 50 "power_on (\<lambda>_. 0) (\<lambda>_. HIGH)" "\<lambda>_. HIGH"]
  by simp

subsection \<open>Parameter store\<close>

text \<open>
  C3. If the stored checksum byte differs from the byte sum of the stored parameter
  block, \<^verbatim>\<open>setup\<close> sets the three parameters to the compiled-in defaults, stores
  them, and stores a checksum that \<^verbatim>\<open>verifyChecksum\<close> accepts afterwards.
\<close>

theorem boot_corrupt_checksum:
  "\<not> verifyChecksum s \<Longrightarrow>
     parameters (setup_board s) = parametersDefault
   \<and> map (\<lambda>i. zunoLoadCFGParam (PARAMETER_FIRST_NUMBER + i) (setup_board s)) [0 ..< PARAM_MAX]
        = parametersDefault
   \<and> verifyChecksum (setup_board s)"
proof -
  assume c: "\<not> verifyChecksum s"
  let ?t = "(setup_board s)\<lparr>parameters := parametersDefault\<rparr>"
  have eq: "setup_board s = saveParameters ?t"
    by (rule setup_corrupt [OF c])
  have 1: "parameters (setup_board s) = parametersDefault"
    using c by (simp add: setup_parameters)
  have "map (\<lambda>i. zunoLoadCFGParam (PARAMETER_FIRST_NUMBER + i) (saveParameters ?t)) [0 ..< PARAM_MAX]
        = parametersDefault"
    unfolding load_saveParameters by (simp add: parametersDefault_def)
  then have 2: "map (\<lambda>i. zunoLoadCFGParam (PARAMETER_FIRST_NUMBER + i) (setup_board s)) [0 ..< PARAM_MAX]
        = parametersDefault"
    using eq by simp
  have "verifyChecksum (saveParameters ?t)"
    by (rule verifyChecksum_saveParameters)
  then have 3: "verifyChecksum (setup_board s)"
    using eq by simp
  from 1 2 3 show ?thesis by blast
qed

theorem boot_corrupt_checksum_witness:
  "\<not> verifyChecksum (power_on ((\<lambda>_. 0)(1 := 7)) (\<lambda>_. HIGH))
   \<and> parameters (setup_board (power_on ((\<lambda>_. 0)(1 := 7)) (\<lambda>_. HIGH))) = [10, 10, 30]
   \<and> verifyChecksum (setup_board (power_on ((\<lambda>_. 0)(1 := 7)) (\<lambda>_. HIGH)))"
proof -
  have h: "\<not> verifyChecksum (power_on ((\<lambda>_. 0)(1 := 7)) (\<lambda>_. HIGH))"
    by (simp add: verifyChecksum_eq power_on_def)
  show ?thesis
    using h boot_corrupt_checksum [OF h]
    by (simp add: parametersDefault_def TEMP_HYSTERESIS_DEFAULT_def HUM_HYSTERESIS_DEFAULT_def
          READ_INTERVAL_DEFAULT_S_def)
qed

text \<open>
  C5. A parameter change for a parameter number other than 64, 65 and 66, numbers below
  64 included, leaves the device as it is: the parameters, the deferred-save flag and
  the EEPROM are unchanged.
\<close>

theorem configParameterChanged_out_of_range:
  "unat q \<notin> {64, 65, 66} \<Longrightarrow> configParameterChanged q v s = s"
proof -
  assume q: "unat q \<notin> {64, 65, 66}"
  have "unat (q - 64) = (if 64 \<le> unat q then unat q - 64 else unat q + 192)"
    using unsigned_less [of q, where ?'a = nat]
    by (simp add: unat_sub_if_size word_size)
  with q have "PARAM_MAX \<le> unat (q - 64)"
    by (auto simp: PARAM_MAX_def)
  then show ?thesis
    by (simp add: configParameterChanged_def PARAMETER_FIRST_NUMBER_def)
qed

theorem configParameterChanged_out_of_range_witness:
  "unat (10 :: u8) \<notin> {64, 65, 66} \<and> configParameterChanged 10 5 (power_on (\<lambda>_. 0) (\<lambda>_. HIGH)) = power_on (\<lambda>_. 0) (\<lambda>_. HIGH)
   \<and> unat (67 :: u8) \<notin> {64, 65, 66} \<and> configParameterChanged 67 5 (power_on (\<lambda>_. 0) (\<lambda>_. HIGH)) = power_on (\<lambda>_. 0) (\<lambda>_. HIGH)"
  using configParameterChanged_out_of_range [of 10 5 "power_on (\<lambda>_. 0) (\<lambda>_. HIGH)"]
    configParameterChanged_out_of_range [of 67 5 "power_on (\<lambda>_. 0) (\<lambda>_. HIGH)"]
  by simp


text \<open>
  C4. A parameter change for parameter number 64, 65 or 66 with value \<open>v\<close> sets the
  parameter in memory at once, to \<open>v\<close>, or to 30 for the read interval (number 66)
  when \<open>v < 30\<close>; apart from that it only raises the deferred-save flag and writes
  nothing to the EEPROM. After the next loop iteration, whatever \<open>e'\<close> the EEPROM holds
  by then (the host stack stores the raw value in between), the stored parameters are
  the ones in memory, the stored checksum is the checksum of those values and
  \<^verbatim>\<open>verifyChecksum\<close> accepts it, and the flag is down again.
\<close>

theorem configParameterChanged_deferred_save:
  assumes q: "unat q \<in> {64, 65, 66}" and len: "length (parameters s) = PARAM_MAX"
  shows "parameters (configParameterChanged q v s) ! (unat q - PARAMETER_FIRST_NUMBER)
           = (if unat q = 66 \<and> v < 30 then 30 else v)
   \<and> configParameterChanged q v s =
        s\<lparr>parameters := (parameters s)
              [unat q - PARAMETER_FIRST_NUMBER := (if unat q = 66 \<and> v < 30 then 30 else v)],
          pendingCfgParamSave := True\<rparr>
   \<and> eeprom (configParameterChanged q v s) = eeprom s
   \<and> pendingCfgParamSave (configParameterChanged q v s)
   \<and> map (\<lambda>i. zunoLoadCFGParam (PARAMETER_FIRST_NUMBER + i)
              (loop cm t h ((configParameterChanged q v s)\<lparr>eeprom := e'\<rparr>))) [0 ..< PARAM_MAX]
        = parameters (configParameterChanged q v s)
   \<and> verifyChecksum (loop cm t h ((configParameterChanged q v s)\<lparr>eeprom := e'\<rparr>))
   \<and> eeprom (loop cm t h ((configParameterChanged q v s)\<lparr>eeprom := e'\<rparr>)) CHECKSUM_ADDRESS
        = parameterChecksum (parameters (configParameterChanged q v s))
   \<and> \<not> pendingCfgParamSave (loop cm t h ((configParameterChanged q v s)\<lparr>eeprom := e'\<rparr>))"
proof -
  let ?v = "if unat q = 66 \<and> v < 30 then 30 else v"
  let ?s1 = "configParameterChanged q v s"
  let ?s2 = "?s1\<lparr>eeprom := e'\<rparr>"
  have eq: "?s1 = s\<lparr>parameters := (parameters s)[unat q - 64 := ?v], pendingCfgParamSave := True\<rparr>"
    by (rule configParameterChanged_eq [OF q])
  have i: "unat q - 64 < length (parameters s)"
    using q len by (auto simp: PARAM_MAX_def)
  have a: "parameters ?s1 ! (unat q - 64) = ?v"
    unfolding eq using i by simp
  have len1: "length (parameters ?s1) = 3"
    unfolding eq using len by (simp add: PARAM_MAX_def)
  have p2: "parameters ?s2 = parameters ?s1" "pendingCfgParamSave ?s2"
    unfolding eq by simp_all
  have ee: "eeprom (loop cm t h ?s2) = eeprom (saveParameters ?s2)"
    using p2 by (simp add: loop_eeprom)
  have ld: "map (\<lambda>i. zunoLoadCFGParam (PARAMETER_FIRST_NUMBER + i) (loop cm t h ?s2)) [0 ..< PARAM_MAX]
          = map (\<lambda>i. zunoLoadCFGParam (PARAMETER_FIRST_NUMBER + i) (saveParameters ?s2)) [0 ..< PARAM_MAX]"
    by (simp add: zunoLoadCFGParam_def ee)
  have b: "map (\<lambda>i. zunoLoadCFGParam (PARAMETER_FIRST_NUMBER + i) (loop cm t h ?s2)) [0 ..< PARAM_MAX]
          = parameters ?s1"
    unfolding ld load_saveParameters p2 by (rule three_elems [OF len1, symmetric])
  have "verifyChecksum (saveParameters ?s2)"
    by (rule verifyChecksum_saveParameters)
  then have c: "verifyChecksum (loop cm t h ?s2)"
    by (simp add: verifyChecksum_def EEPROM_read_def ee)
  have d: "eeprom (loop cm t h ?s2) CHECKSUM_ADDRESS = parameterChecksum (parameters ?s1)"
    unfolding ee by (simp add: saveParameters_eq CHECKSUM_ADDRESS_def EEPROM_ADDRESS_def p2)
  have e: "eeprom ?s1 = eeprom s" "pendingCfgParamSave ?s1"
    unfolding eq by simp_all
  show ?thesis
    using a eq b c d e loop_pending [of cm t h ?s2]
    by (simp add: PARAMETER_FIRST_NUMBER_def)
qed

theorem configParameterChanged_deferred_save_witness:
  "unat (66 :: u8) \<in> {64, 65, 66} \<and> length (parameters first_boot) = PARAM_MAX
   \<and> parameters (configParameterChanged 66 5 first_boot) ! (unat (66 :: u8) - PARAMETER_FIRST_NUMBER)
       = 30
   \<and> (configParameterChanged 66 5 first_boot)
         \<lparr>eeprom := eeprom (step (CfgParameter 66 5) first_boot)\<rparr>
       = step (CfgParameter 66 5) first_boot
   \<and> verifyChecksum (loop 0 0 0 (step (CfgParameter 66 5) first_boot))"
proof -
  let ?e = "eeprom (step (CfgParameter 66 5) first_boot)"
  have q: "unat (66 :: u8) \<in> {64, 65, 66}" by simp
  have len: "length (parameters first_boot) = PARAM_MAX"
    by (simp add: first_boot_fields PARAM_MAX_def)
  have st: "(configParameterChanged 66 5 first_boot)\<lparr>eeprom := ?e\<rparr>
              = step (CfgParameter 66 5) first_boot"
    by (simp add: hostStoreCFGParam_def zunoSaveCFGParam_def)
  note T = configParameterChanged_deferred_save [OF q len, of 5 0 0 0 ?e]
  have a: "parameters (configParameterChanged 66 5 first_boot)
                    ! (unat (66 :: u8) - PARAMETER_FIRST_NUMBER) = 30"
    using T [THEN conjunct1] by simp
  from T have "verifyChecksum (loop 0 0 0 ((configParameterChanged 66 5 first_boot)\<lparr>eeprom := ?e\<rparr>))"
    by blast
  then have c: "verifyChecksum (loop 0 0 0 (step (CfgParameter 66 5) first_boot))"
    by (simp only: st)
  from q len a st c show ?thesis by blast
qed

text \<open>
  C10. From the end of \<^verbatim>\<open>setup\<close> on, along every run of loop iterations, fan
  commands and parameter changes: whenever the deferred-save flag is down, the byte at
  \<^verbatim>\<open>CHECKSUM_ADDRESS\<close> is the sum modulo 256 of the high and low bytes of the
  parameters in memory. The flag is down after \<^verbatim>\<open>setup\<close> (in either branch) and
  at the end of every loop iteration, so the equation holds there.
\<close>

theorem checksum_invariant:
  "(\<not> pendingCfgParamSave (run evs (setup_board (power_on e p0))) \<longrightarrow>
       eeprom (run evs (setup_board (power_on e p0))) CHECKSUM_ADDRESS
         = parameterChecksum (parameters (run evs (setup_board (power_on e p0)))))
   \<and> \<not> pendingCfgParamSave (setup_board (power_on e p0))
   \<and> \<not> pendingCfgParamSave (loop cm t h (run evs (setup_board (power_on e p0))))
   \<and> eeprom (loop cm t h (run evs (setup_board (power_on e p0)))) CHECKSUM_ADDRESS
        = parameterChecksum (parameters (loop cm t h (run evs (setup_board (power_on e p0)))))"
proof -
  let ?s = "run evs (setup_board (power_on e p0))"
  have I: "pendingCfgParamSave ?s \<or> eeprom ?s CHECKSUM_ADDRESS = parameterChecksum (parameters ?s)"
    by (rule run_checksum) (simp add: setup_checksum)
  have b: "\<not> pendingCfgParamSave (setup_board (power_on e p0))"
    by (simp add: setup_pending power_on_fields)
  show ?thesis
    using I b loop_checksum [OF I, of cm t h] loop_pending [of cm t h ?s] by blast
qed

theorem checksum_invariant_witness:
  "\<not> pendingCfgParamSave
       (run [CfgParameter 64 20, SetFan 40, LoopIteration 30000 215 400] first_boot)
   \<and> eeprom (run [CfgParameter 64 20, SetFan 40, LoopIteration 30000 215 400] first_boot)
        CHECKSUM_ADDRESS
      = parameterChecksum
          (parameters (run [CfgParameter 64 20, SetFan 40, LoopIteration 30000 215 400] first_boot))"
proof -
  have h: "\<not> pendingCfgParamSave
       (run [CfgParameter 64 20, SetFan 40, LoopIteration 30000 215 400] first_boot)"
    by (simp add: run_def loop_pending)
  show ?thesis
    using h checksum_invariant [of "[CfgParameter 64 20, SetFan 40, LoopIteration 30000 215 400]"
        erased_eeprom idle_pins]
    by (simp add: first_boot_def)
qed

subsection \<open>Sensor reports\<close>

text \<open>
  C6, as amended. On a polling tick, for temperature and humidity each on its own:
  provided the difference between the new reading and the last reported value fits the
  board's 16-bit \<^verbatim>\<open>int\<close> (it lies in -32768..32767), a report for the quantity is
  sent if and only if the absolute difference is at least the quantity's hysteresis
  threshold, and the last reported value becomes the new reading exactly then. The
  statement for one quantity asks nothing of the other. No report is sent twice in one
  iteration.
\<close>

theorem loop_hysteresis_reports:
  assumes tick: "ucast (parameters s ! PARAM_READ_INTERVAL * 1000) \<le> cm - lastMillis s"
  shows
    "(- 32768 \<le> sint t - sint (sentTemperature s) \<and> sint t - sint (sentTemperature s) \<le> 32767
        \<longrightarrow>
          (CH_TEMP \<in> set (drop (length (reports s)) (reports (loop cm t h s)))
             \<longleftrightarrow> uint (parameters s ! PARAM_TEMP_HYSTERESIS) \<le> \<bar>sint t - sint (sentTemperature s)\<bar>)
        \<and> sentTemperature (loop cm t h s) =
            (if uint (parameters s ! PARAM_TEMP_HYSTERESIS) \<le> \<bar>sint t - sint (sentTemperature s)\<bar>
             then t else sentTemperature s))
   \<and> (- 32768 \<le> sint h - sint (sentHumidity s) \<and> sint h - sint (sentHumidity s) \<le> 32767
        \<longrightarrow>
          (CH_HUM \<in> set (drop (length (reports s)) (reports (loop cm t h s)))
             \<longleftrightarrow> uint (parameters s ! PARAM_HUM_HYSTERESIS) \<le> \<bar>sint h - sint (sentHumidity s)\<bar>)
        \<and> sentHumidity (loop cm t h s) =
            (if uint (parameters s ! PARAM_HUM_HYSTERESIS) \<le> \<bar>sint h - sint (sentHumidity s)\<bar>
             then h else sentHumidity s))
   \<and> distinct (drop (length (reports s)) (reports (loop cm t h s)))"
proof -
  let ?new = "drop (length (reports s)) (reports (loop cm t h s))"
  have new: "?new =
      (if parameters s ! PARAM_TEMP_HYSTERESIS \<le> abs_int (t - sentTemperature s)
       then [CH_TEMP] else [])
    @ (if parameters s ! PARAM_HUM_HYSTERESIS \<le> abs_int (h - sentHumidity s)
       then [CH_HUM] else [])"
    using tick by (simp add: loop_reports)
  have T: "CH_TEMP \<in> set ?new \<longleftrightarrow>
             parameters s ! PARAM_TEMP_HYSTERESIS \<le> abs_int (t - sentTemperature s)"
    unfolding new by simp
  have H: "CH_HUM \<in> set ?new \<longleftrightarrow>
             parameters s ! PARAM_HUM_HYSTERESIS \<le> abs_int (h - sentHumidity s)"
    unfolding new by simp
  have D: "distinct ?new"
    unfolding new by simp
  have sT: "sentTemperature (loop cm t h s) =
      (if parameters s ! PARAM_TEMP_HYSTERESIS \<le> abs_int (t - sentTemperature s)
       then t else sentTemperature s)"
    using tick by (simp add: loop_sentTemperature)
  have sH: "sentHumidity (loop cm t h s) =
      (if parameters s ! PARAM_HUM_HYSTERESIS \<le> abs_int (h - sentHumidity s)
       then h else sentHumidity s)"
    using tick by (simp add: loop_sentHumidity)
  show ?thesis
    unfolding T H sT sH using D by (simp add: hysteresis_test)
qed

theorem loop_hysteresis_reports_witness:
  "ucast (parameters first_boot ! PARAM_READ_INTERVAL * 1000) \<le> (30000 :: u32) - lastMillis first_boot
   \<and> - 32768 \<le> sint (215 :: i16) - sint (sentTemperature first_boot)
   \<and> sint (215 :: i16) - sint (sentTemperature first_boot) \<le> 32767
   \<and> - 32768 \<le> sint (4 :: i16) - sint (sentHumidity first_boot)
   \<and> sint (4 :: i16) - sint (sentHumidity first_boot) \<le> 32767
   \<and> CH_TEMP \<in> set (drop (length (reports first_boot)) (reports (loop 30000 215 4 first_boot)))
   \<and> CH_HUM \<notin> set (drop (length (reports first_boot)) (reports (loop 30000 215 4 first_boot)))
   \<and> sentTemperature (loop 30000 215 4 first_boot) = 215
   \<and> sentHumidity (loop 30000 215 4 first_boot) = 0"
proof -
  have tick: "ucast (parameters first_boot ! PARAM_READ_INTERVAL * 1000)
                \<le> (30000 :: u32) - lastMillis first_boot"
    by (simp add: first_boot_fields param_index_defs)
  show ?thesis
    using tick loop_hysteresis_reports [OF tick, of 215 4]
    by (simp add: first_boot_fields param_index_defs)
qed

text \<open>
  Without the proviso the statement fails. After a first boot, a reading of -32768 is
  reported; at the next tick a reading of 32767 differs from it by 65535, far above the
  threshold 10, but the 16-bit difference wraps to -1 and no temperature report is sent.
\<close>

theorem loop_hysteresis_overflow:
  "ucast (parameters (run [LoopIteration 30000 (- 32768) 0] first_boot) ! PARAM_READ_INTERVAL * 1000)
      \<le> (60000 :: u32) - lastMillis (run [LoopIteration 30000 (- 32768) 0] first_boot)
   \<and> uint (parameters (run [LoopIteration 30000 (- 32768) 0] first_boot) ! PARAM_TEMP_HYSTERESIS)
       \<le> \<bar>sint (32767 :: i16)
            - sint (sentTemperature (run [LoopIteration 30000 (- 32768) 0] first_boot))\<bar>
   \<and> CH_TEMP \<notin> set (drop (length (reports (run [LoopIteration 30000 (- 32768) 0] first_boot)))
        (reports (loop 60000 32767 0 (run [LoopIteration 30000 (- 32768) 0] first_boot))))
   \<and> sentTemperature (loop 60000 32767 0 (run [LoopIteration 30000 (- 32768) 0] first_boot))
       \<noteq> 32767"
  by (simp add: loop_reports loop_sentTemperature cold_reading_fields param_index_defs
        abs_int_def word_sless_alt)

end
